theory Spec2Isabelle
  imports Main "HOL-Library.Word"
begin

section \<open>JavaScript values seen by the route handlers\<close>

text \<open>
  A JavaScript string is a sequence of UTF-16 code units; \<open>length\<close> counts code units.
  The texts of the replies (error names and messages) are kept as plain strings.
\<close>

type_synonym jsstring = "16 word list"

definition js :: "string \<Rightarrow> jsstring" where
  "js s = map of_char s"

text \<open>
  \<open>String.prototype.trim\<close> and \<open>Number.parseInt\<close> strip the code units of WhiteSpace and
  LineTerminator: TAB, LF, VT, FF, CR, SP, NBSP, U+1680, U+2000..U+200A, U+2028, U+2029,
  U+202F, U+205F, U+3000 and U+FEFF.
\<close>

definition isWhiteSpace :: "16 word \<Rightarrow> bool" where
  "isWhiteSpace c \<longleftrightarrow>
     c \<in> set [0x9, 0xA, 0xB, 0xC, 0xD, 0x20, 0xA0, 0x1680, 0x2028, 0x2029, 0x202F, 0x205F,
              0x3000, 0xFEFF]
     \<or> (0x2000 \<le> c \<and> c \<le> 0x200A)"

definition trim :: "jsstring \<Rightarrow> jsstring" where
  "trim s = rev (dropWhile isWhiteSpace (rev (dropWhile isWhiteSpace s)))"

text \<open>
  The values a JSON request body can hold in its \<open>text\<close> and \<open>author\<close> properties;
  \<open>JUndefined\<close> is a property that is missing. Of a number the handler only observes
  whether it is zero.
\<close>

datatype jsval =
    JUndefined
  | JNull
  | JBool bool
  | JNum int
  | JStr jsstring
  | JArr "jsval list"
  | JObj "(jsstring \<times> jsval) list"

text \<open>
  The numbers \<open>Number.parseInt\<close> can return: NaN, an integer that is a double, or an
  infinity. (Negative zero is not told apart from zero: the handler only compares it with
  zero.)
\<close>

datatype jsnumber = NaN | Num int | PosInfinity | NegInfinity

text \<open>\<open>!v\<close> is \<open>\<not> truthy v\<close>: undefined, null, false, 0 and the empty string are falsy.\<close>

fun truthy :: "jsval \<Rightarrow> bool" where
  "truthy JUndefined = False"
| "truthy JNull = False"
| "truthy (JBool b) = b"
| "truthy (JNum n) = (n \<noteq> 0)"
| "truthy (JStr s) = (s \<noteq> [])"
| "truthy (JArr _) = True"
| "truthy (JObj _) = True"

fun isString :: "jsval \<Rightarrow> bool" where
  "isString (JStr _) = True"
| "isString _ = False"

section \<open>Collaborators of the routes module\<close>

text \<open>
  The store (\<open>db\<close>) and the profanity filter are separate modules, and the metrics objects
  come from the metrics client library. The handlers are written against their interfaces:
  the store is any state type \<open>'s\<close> with operations that either return or fail with an
  error message, and may change the store either way; the filter is any function of the two
  strings that returns a verdict or throws.
\<close>

datatype fault = Fault string

record quote =
  quote_id :: nat
  quote_text :: jsstring
  quote_author :: jsstring
  quote_views :: nat

record stats =
  totalQuotes :: nat
  totalViews :: nat

record validation =
  isValid :: bool
  validation_message :: string

type_synonym profanityFilter = "jsstring \<Rightarrow> jsstring \<Rightarrow> fault + validation"

record 's db =
  getRandomQuote :: "'s \<Rightarrow> (fault + quote option) \<times> 's"
  addQuote :: "jsstring \<Rightarrow> jsstring \<Rightarrow> 's \<Rightarrow> (fault + quote) \<times> 's"
  getAllQuotes :: "'s \<Rightarrow> (fault + quote list) \<times> 's"
  getStats :: "'s \<Rightarrow> (fault + stats) \<times> 's"
  deleteQuote :: "jsnumber \<Rightarrow> 's \<Rightarrow> (fault + bool) \<times> 's"

text \<open>
  The metrics registry of the module: three plain counters, the request counter labelled
  by method, route and status, and the duration histogram labelled by method and route. A
  labelled counter is a value per label tuple; the histogram keeps, per label pair, the
  samples observed (durations in nanoseconds). The process state is the store and the
  registry.
\<close>

record registry =
  quotesServedCounter :: nat
  quotesAddedCounter :: nat
  profanityBlockedCounter :: nat
  httpRequestsCounter :: "string \<times> string \<times> string \<Rightarrow> nat"
  requestDurationHistogram :: "string \<times> string \<Rightarrow> nat list"

record 's world =
  store :: 's
  metrics :: registry

definition inc_quotesServed :: "'s world \<Rightarrow> 's world" where
  "inc_quotesServed w =
     w\<lparr>metrics := (metrics w)\<lparr>quotesServedCounter := quotesServedCounter (metrics w) + 1\<rparr>\<rparr>"

definition inc_quotesAdded :: "'s world \<Rightarrow> 's world" where
  "inc_quotesAdded w =
     w\<lparr>metrics := (metrics w)\<lparr>quotesAddedCounter := quotesAddedCounter (metrics w) + 1\<rparr>\<rparr>"

definition inc_profanityBlocked :: "'s world \<Rightarrow> 's world" where
  "inc_profanityBlocked w =
     w\<lparr>metrics := (metrics w)\<lparr>profanityBlockedCounter :=
        profanityBlockedCounter (metrics w) + 1\<rparr>\<rparr>"

section \<open>Replies\<close>

record stats_data =
  data_totalQuotes :: nat
  data_totalRandomQuoteRequests :: nat
  data_quotesAdded :: nat
  data_profanityBlocked :: nat

datatype payload =
    QuoteData quote
  | QuotesData "quote list"
  | StatsData stats_data

text \<open>
  A message is a fixed text, or the template literal \<open>Quote with id ${id} does not exist\<close>,
  which is kept with the number it prints.
\<close>

datatype message = Text string | QuoteDoesNotExist jsnumber

record json =
  success :: bool
  error :: "string option"
  message :: "message option"
  data :: "payload option"

datatype reply = Json nat json | Send nat string

fun status :: "reply \<Rightarrow> nat" where
  "status (Json c _) = c"
| "status (Send c _) = c"

definition failure :: "nat \<Rightarrow> string \<Rightarrow> string option \<Rightarrow> reply" where
  "failure c e m =
     Json c \<lparr>success = False, error = Some e, message = map_option Text m, data = None\<rparr>"

definition validationError :: "string \<Rightarrow> reply" where
  "validationError m = failure 400 ''Validation error'' (Some m)"

text \<open>The reply of the delete route for an id that was not removed.\<close>

definition notFound :: "jsnumber \<Rightarrow> reply" where
  "notFound n = Json 404 \<lparr>success = False, error = Some ''Not Found'',
                          message = Some (QuoteDoesNotExist n), data = None\<rparr>"

fun faultMessage :: "fault \<Rightarrow> string" where
  "faultMessage (Fault m) = m"

section \<open>POST /quote\<close>

text \<open>
  The handler reads \<open>text\<close> and \<open>author\<close> off the parsed body and answers every case with
  one reply; an exception of the filter or of the store is caught and answered with the
  reply "Failed to add quote" (500).
\<close>

text \<open>The messages of the validation errors; \<open>quoted\<close> puts a name in double quotes.\<close>

definition quoted :: "string \<Rightarrow> string" where
  "quoted s = CHR 0x22 # s @ [CHR 0x22]"

definition msgRequired :: string where
  "msgRequired = ''Both '' @ quoted ''text'' @ '' and '' @ quoted ''author'' @ '' fields are required''"

definition msgStrings :: string where
  "msgStrings = ''Both '' @ quoted ''text'' @ '' and '' @ quoted ''author'' @ '' must be strings''"

definition msgEmpty :: string where
  "msgEmpty = ''Both '' @ quoted ''text'' @ '' and '' @ quoted ''author'' @ '' cannot be empty''"

definition msgTextLength :: string where
  "msgTextLength = ''Quote text cannot exceed 1000 characters''"

definition msgAuthorLength :: string where
  "msgAuthorLength = ''Author name cannot exceed 100 characters''"

definition postQuote ::
  "profanityFilter \<Rightarrow> 's db \<Rightarrow> jsval \<Rightarrow> jsval \<Rightarrow> 's world \<Rightarrow> reply \<times> 's world" where
  "postQuote pf d text author w =
     (if \<not> truthy text \<or> \<not> truthy author then
        (validationError msgRequired, w)
      else case (text, author) of
        (JStr t, JStr a) \<Rightarrow>
          if length (trim t) = 0 \<or> length (trim a) = 0 then
            (validationError msgEmpty, w)
          else if length t > 1000 then
            (validationError msgTextLength, w)
          else if length a > 100 then
            (validationError msgAuthorLength, w)
          else (case pf t a of
              Inl e \<Rightarrow> (failure 500 ''Failed to add quote'' (Some (faultMessage e)), w)
            | Inr v \<Rightarrow>
                if \<not> isValid v then
                  (failure 400 ''Profanity detected'' (Some (validation_message v)),
                   inc_profanityBlocked w)
                else (case addQuote d (trim t) (trim a) (store w) of
                    (Inl e, s') \<Rightarrow>
                      (failure 500 ''Failed to add quote'' (Some (faultMessage e)),
                       w\<lparr>store := s'\<rparr>)
                  | (Inr q, s') \<Rightarrow>
                      (Json 201 \<lparr>success = True, error = None,
                                 message = Some (Text ''Quote added successfully''),
                                 data = Some (QuoteData q)\<rparr>,
                       inc_quotesAdded (w\<lparr>store := s'\<rparr>))))
      | _ \<Rightarrow> (validationError msgStrings, w))"

section \<open>GET /quote\<close>

definition getQuote :: "'s db \<Rightarrow> 's world \<Rightarrow> reply \<times> 's world" where
  "getQuote d w =
     (case getRandomQuote d (store w) of
        (Inl e, s') \<Rightarrow>
          (failure 500 ''Failed to fetch quote'' (Some (faultMessage e)), w\<lparr>store := s'\<rparr>)
      | (Inr None, s') \<Rightarrow>
          (failure 404 ''No quotes found in database'' None, w\<lparr>store := s'\<rparr>)
      | (Inr (Some q), s') \<Rightarrow>
          (Json 200 \<lparr>success = True, error = None, message = None,
                     data = Some (QuoteData q)\<rparr>,
           inc_quotesServed (w\<lparr>store := s'\<rparr>)))"

section \<open>GET /quotes\<close>

definition getQuotes :: "'s db \<Rightarrow> 's world \<Rightarrow> reply \<times> 's world" where
  "getQuotes d w =
     (case getAllQuotes d (store w) of
        (Inl e, s') \<Rightarrow>
          (failure 500 ''Failed to fetch quotes'' (Some (faultMessage e)), w\<lparr>store := s'\<rparr>)
      | (Inr qs, s') \<Rightarrow>
          (Json 200 \<lparr>success = True, error = None, message = None,
                     data = Some (QuotesData qs)\<rparr>,
           w\<lparr>store := s'\<rparr>))"

section \<open>GET /stats\<close>

text \<open>
  The handler reads two counters with \<open>counter.get().values[0]?.value || 0\<close>. What this
  expression yields depends on the metrics client: where \<open>get()\<close> returns the values, it
  is the counter's value (0 when it has none); where \<open>get()\<close> returns a promise, indexing
  its missing \<open>values\<close> throws. The handler is written against either: \<open>readCounter\<close> gives
  the outcome of the expression for a counter's value, and \<open>syncRead\<close> is the first client.
\<close>

definition syncRead :: "nat \<Rightarrow> fault + nat" where
  "syncRead c = Inr (if c = 0 then 0 else c)"

definition statsFailure :: "fault \<Rightarrow> reply" where
  "statsFailure e = failure 500 ''Failed to fetch statistics'' (Some (faultMessage e))"

definition getStatsRoute ::
  "(nat \<Rightarrow> fault + nat) \<Rightarrow> 's db \<Rightarrow> 's world \<Rightarrow> reply \<times> 's world" where
  "getStatsRoute readCounter d w =
     (case getStats d (store w) of
        (Inl e, s') \<Rightarrow> (statsFailure e, w\<lparr>store := s'\<rparr>)
      | (Inr st, s') \<Rightarrow>
          (case readCounter (quotesAddedCounter (metrics w)) of
             Inl e \<Rightarrow> (statsFailure e, w\<lparr>store := s'\<rparr>)
           | Inr added \<Rightarrow>
               (case readCounter (profanityBlockedCounter (metrics w)) of
                  Inl e \<Rightarrow> (statsFailure e, w\<lparr>store := s'\<rparr>)
                | Inr blocked \<Rightarrow>
                    (Json 200 \<lparr>success = True, error = None, message = None,
                       data = Some (StatsData
                         \<lparr>data_totalQuotes = totalQuotes st,
                          data_totalRandomQuoteRequests = totalViews st,
                          data_quotesAdded = added,
                          data_profanityBlocked = blocked\<rparr>)\<rparr>,
                     w\<lparr>store := s'\<rparr>))))"

section \<open>DELETE /quote/:id\<close>

text \<open>
  \<open>Number.parseInt(s, 10)\<close>: leading white space is skipped, one sign is read, and the
  longest run of decimal digits that follows is the value; with no digit there the result
  is NaN. The value is returned as a double: the nearest one, ties to the even mantissa,
  and an infinity when it is out of range (the standard allows an approximation beyond
  20 significant digits; the engine rounds correctly at every length).
  \<open>binaryExponent n\<close> is the number of low bits that do not fit into the 53 bits of the
  mantissa.
\<close>

definition isDigit :: "16 word \<Rightarrow> bool" where
  "isDigit c \<longleftrightarrow> 0x30 \<le> c \<and> c \<le> 0x39"

definition digitValue :: "16 word \<Rightarrow> nat" where
  "digitValue c = unat c - 48"

definition decimalValue :: "16 word list \<Rightarrow> nat" where
  "decimalValue ds = foldl (\<lambda>n c. 10 * n + digitValue c) 0 ds"

fun binaryExponent :: "nat \<Rightarrow> nat" where
  "binaryExponent n = (if n < 9007199254740992 then 0 else Suc (binaryExponent (n div 2)))"

declare binaryExponent.simps [simp del]

definition roundToDouble :: "nat \<Rightarrow> nat option" where
  "roundToDouble n =
     (let e = binaryExponent n;
          q = n div 2 ^ e;
          r = n mod 2 ^ e;
          q' = (if 2 ^ e < 2 * r \<or> (2 * r = 2 ^ e \<and> odd q) then q + 1 else q)
      in if 2 ^ 1024 \<le> q' * 2 ^ e then None else Some (q' * 2 ^ e))"

definition toNumber :: "int \<Rightarrow> nat \<Rightarrow> jsnumber" where
  "toNumber sign n =
     (case roundToDouble n of
        None \<Rightarrow> if sign < 0 then NegInfinity else PosInfinity
      | Some v \<Rightarrow> Num (sign * int v))"

definition parseInt :: "jsstring \<Rightarrow> jsnumber" where
  "parseInt s =
     (let s1 = dropWhile isWhiteSpace s;
          (sign, s2) = (case s1 of
                          [] \<Rightarrow> (1, s1)
                        | c # r \<Rightarrow> if c = 0x2D then (- 1, r)
                                   else if c = 0x2B then (1, r) else (1, s1));
          ds = takeWhile isDigit s2
      in if ds = [] then NaN else toNumber sign (decimalValue ds))"

text \<open>\<open>Number.isNaN(id)\<close> and \<open>id <= 0\<close>.\<close>

fun isNaN :: "jsnumber \<Rightarrow> bool" where
  "isNaN NaN = True"
| "isNaN _ = False"

fun leZero :: "jsnumber \<Rightarrow> bool" where
  "leZero NaN = False"
| "leZero (Num i) = (i \<le> 0)"
| "leZero PosInfinity = False"
| "leZero NegInfinity = True"

text \<open>
  The decimal digits of a number, as \<open>String(res.statusCode)\<close> prints a status code.
\<close>

fun decimal :: "nat \<Rightarrow> string" where
  "decimal n = (if n < 10 then [char_of (48 + n)] else decimal (n div 10) @ [char_of (48 + n mod 10)])"

declare decimal.simps [simp del]

definition deleteQuoteRoute :: "'s db \<Rightarrow> jsstring \<Rightarrow> 's world \<Rightarrow> reply \<times> 's world" where
  "deleteQuoteRoute d idParam w =
     (let id = parseInt idParam
      in if isNaN id \<or> leZero id then
           (validationError ''Quote id must be a positive integer'', w)
         else (case deleteQuote d id (store w) of
             (Inl e, s') \<Rightarrow>
               (failure 500 ''Failed to delete quote'' (Some (faultMessage e)),
                w\<lparr>store := s'\<rparr>)
           | (Inr removed, s') \<Rightarrow>
               if \<not> removed then
                 (notFound id, w\<lparr>store := s'\<rparr>)
               else
                 (Json 200 \<lparr>success = True, error = None,
                            message = Some (Text ''Quote deleted successfully''), data = None\<rparr>,
                  w\<lparr>store := s'\<rparr>)))"

section \<open>GET /metrics\<close>

text \<open>
  \<open>register.metrics()\<close> of the metrics client renders the registry as text, or fails; it
  is a function of the registry.
\<close>

definition metricsRoute ::
  "(registry \<Rightarrow> fault + string) \<Rightarrow> 's world \<Rightarrow> reply \<times> 's world" where
  "metricsRoute render w =
     (case render (metrics w) of
        Inl e \<Rightarrow> (failure 500 ''Failed to generate metrics'' (Some (faultMessage e)), w)
      | Inr txt \<Rightarrow> (Send 200 txt, w))"

section \<open>The metrics middleware\<close>

text \<open>
  The request as the middleware reads it: \<open>req.route?.path\<close> is \<open>None\<close> when \<open>req.route\<close>
  is not set, which is the case when a router-level middleware runs (the framework sets
  \<open>req.route\<close> only when it enters a matched route, after the middleware has taken the
  label).
\<close>

record request =
  req_method :: string
  req_route_path :: "string option"
  req_path :: string
  req_originalUrl :: string
  req_url :: string

definition routeLabel :: "request \<Rightarrow> string" where
  "routeLabel req =
     (let rest = (if req_path req \<noteq> [] then req_path req
                  else if req_originalUrl req \<noteq> [] then req_originalUrl req
                  else req_url req)
      in case req_route_path req of
           None \<Rightarrow> rest
         | Some p \<Rightarrow> if p \<noteq> [] then p else rest)"

definition counter_inc :: "('k \<Rightarrow> nat) \<Rightarrow> 'k \<Rightarrow> ('k \<Rightarrow> nat)" where
  "counter_inc c k = c(k := c k + 1)"

definition histogram_observe :: "('k \<Rightarrow> nat list) \<Rightarrow> 'k \<Rightarrow> nat \<Rightarrow> ('k \<Rightarrow> nat list)" where
  "histogram_observe h k v = h(k := h k @ [v])"

text \<open>The \<open>finish\<close> listener: one counter increment, then the timer is stopped.\<close>

definition onFinish :: "string \<Rightarrow> string \<Rightarrow> nat \<Rightarrow> nat \<Rightarrow> registry \<Rightarrow> registry" where
  "onFinish method label statusCode elapsed m =
     (let m1 = m\<lparr>httpRequestsCounter :=
                   counter_inc (httpRequestsCounter m) (method, label, decimal statusCode)\<rparr>
      in m1\<lparr>requestDurationHistogram :=
               histogram_observe (requestDurationHistogram m1) (method, label) elapsed\<rparr>)"

text \<open>
  The middleware takes the label and starts the timer, then lets the rest of the stack
  (\<open>next\<close>) answer the request. The listener is registered for the \<open>finish\<close> event of the
  response only: it runs once, \<open>elapsed\<close> after the timer started, when the reply has been
  handed over in full (\<open>finished\<close>), and not at all when the connection is closed before
  that.
\<close>

definition metricsMiddleware ::
  "request \<Rightarrow> bool \<Rightarrow> nat \<Rightarrow> ('s world \<Rightarrow> reply \<times> 's world) \<Rightarrow> 's world \<Rightarrow> reply \<times> 's world" where
  "metricsMiddleware req finished elapsed next w =
     (let label = routeLabel req;
          (rep, w') = next w
      in if finished
         then (rep, w'\<lparr>metrics := onFinish (req_method req) label (status rep) elapsed (metrics w')\<rparr>)
         else (rep, w'))"

section \<open>The store and the filter, as the specification describes them\<close>

text \<open>
  Modelled from the spec: the store module (\<open>db\<close>) is not among the sources. The quote store
  holds the live quotes in creation order and the next identifier to assign. \<open>addQuote\<close>
  creates a record with a freshly assigned identifier and \<open>views = 0\<close>;
  \<open>getRandomQuote\<close> returns none on an empty store and otherwise selects a live quote
  (\<open>pick\<close> stands for the random draw) and increments its views by one; \<open>getAllQuotes\<close>
  lists the live quotes in creation order; \<open>deleteQuote\<close> removes the quote if present and
  returns whether a deletion occurred; \<open>getStats\<close> gives the live count and the sum of the
  views. This in-memory store has no storage layer and so never fails.
\<close>

record quoteStore =
  quotes :: "quote list"
  nextId :: nat

text \<open>
  Modelled from the spec: \<open>addQuote(text, author)\<close> creates a new record with a freshly
  assigned identifier and \<open>views = 0\<close>.
\<close>

definition spec_addQuote :: "jsstring \<Rightarrow> jsstring \<Rightarrow> quoteStore \<Rightarrow> (fault + quote) \<times> quoteStore" where
  "spec_addQuote t a s =
     (let q = \<lparr>quote_id = nextId s, quote_text = t, quote_author = a, quote_views = 0\<rparr>
      in (Inr q, s\<lparr>quotes := quotes s @ [q], nextId := nextId s + 1\<rparr>))"

text \<open>
  Modelled from the spec: \<open>getRandomQuote()\<close> returns none if the store is empty; every
  successful selection increments that quote's views by exactly one.
\<close>

definition spec_getRandomQuote ::
  "(quoteStore \<Rightarrow> nat) \<Rightarrow> quoteStore \<Rightarrow> (fault + quote option) \<times> quoteStore" where
  "spec_getRandomQuote pick s =
     (if quotes s = [] then (Inr None, s)
      else let i = pick s mod length (quotes s);
               q = (quotes s ! i)\<lparr>quote_views := quote_views (quotes s ! i) + 1\<rparr>
           in (Inr (Some q), s\<lparr>quotes := (quotes s)[i := q]\<rparr>))"

text \<open>Modelled from the spec: \<open>getAllQuotes()\<close> returns all live quotes in creation order.\<close>

definition spec_getAllQuotes :: "quoteStore \<Rightarrow> (fault + quote list) \<times> quoteStore" where
  "spec_getAllQuotes s = (Inr (quotes s), s)"

text \<open>
  Modelled from the spec: \<open>getStats()\<close> gives the live count and the sum of the views
  across all live quotes.
\<close>

definition spec_getStats :: "quoteStore \<Rightarrow> (fault + stats) \<times> quoteStore" where
  "spec_getStats s =
     (Inr \<lparr>totalQuotes = length (quotes s),
           totalViews = sum_list (map quote_views (quotes s))\<rparr>, s)"

text \<open>
  Modelled from the spec: \<open>deleteQuote(id)\<close> removes the quote if present and returns
  whether a deletion occurred.
\<close>

definition spec_deleteQuote :: "jsnumber \<Rightarrow> quoteStore \<Rightarrow> (fault + bool) \<times> quoteStore" where
  "spec_deleteQuote n s =
     (Inr (n \<in> set (map (\<lambda>q. Num (int (quote_id q))) (quotes s))),
      s\<lparr>quotes := filter (\<lambda>q. Num (int (quote_id q)) \<noteq> n) (quotes s)\<rparr>)"

text \<open>Modelled from the spec: the store module, made of the operations above.\<close>

definition specDb :: "(quoteStore \<Rightarrow> nat) \<Rightarrow> quoteStore db" where
  "specDb pick =
     \<lparr>getRandomQuote = spec_getRandomQuote pick,
      addQuote = spec_addQuote,
      getAllQuotes = spec_getAllQuotes,
      getStats = spec_getStats,
      deleteQuote = spec_deleteQuote\<rparr>"

definition emptyStore :: quoteStore where
  "emptyStore = \<lparr>quotes = [], nextId = 1\<rparr>"

text \<open>
  Modelled from the spec: identifiers are positive, unique, assigned in increasing order and
  never reused. So the identifiers of the live quotes are distinct and below the next
  identifier.
\<close>

definition storeOk :: "quoteStore \<Rightarrow> bool" where
  "storeOk s \<longleftrightarrow>
     0 < nextId s \<and> distinct (map quote_id (quotes s)) \<and>
     list_all (\<lambda>q. 0 < quote_id q \<and> quote_id q < nextId s) (quotes s)"

text \<open>A draw that always selects the oldest live quote.\<close>

definition firstPick :: "quoteStore \<Rightarrow> nat" where
  "firstPick s = 0"

text \<open>
  Modelled from the spec: the profanity filter module is not among the sources. It checks
  both fields against a list of disallowed words, case-insensitively and also inside longer
  tokens, has no state, and on a match returns \<open>isValid = false\<close> with a reason that does
  not disclose the word.
\<close>

definition toLower :: "16 word \<Rightarrow> 16 word" where
  "toLower c = (if 0x41 \<le> c \<and> c \<le> 0x5A then c + 0x20 else c)"

fun startsWith :: "'a list \<Rightarrow> 'a list \<Rightarrow> bool" where
  "startsWith _ [] = True"
| "startsWith [] (_ # _) = False"
| "startsWith (x # xs) (y # ys) = (x = y \<and> startsWith xs ys)"

fun containsWord :: "'a list \<Rightarrow> 'a list \<Rightarrow> bool" where
  "containsWord [] w = startsWith [] w"
| "containsWord (x # xs) w = (startsWith (x # xs) w \<or> containsWord xs w)"

definition spec_validateQuote :: "jsstring list \<Rightarrow> profanityFilter" where
  "spec_validateQuote disallowed t a =
     Inr (if list_ex (\<lambda>w. containsWord (map toLower t) w \<or> containsWord (map toLower a) w)
               disallowed
          then \<lparr>isValid = False, validation_message = ''Profanity detected''\<rparr>
          else \<lparr>isValid = True, validation_message = []\<rparr>)"

text \<open>A filter with a one-word list, and the state of a process that has just started.\<close>

definition sampleFilter :: profanityFilter where
  "sampleFilter = spec_validateQuote [js ''damn'']"

definition emptyRegistry :: registry where
  "emptyRegistry =
     \<lparr>quotesServedCounter = 0, quotesAddedCounter = 0, profanityBlockedCounter = 0,
      httpRequestsCounter = (\<lambda>_. 0), requestDurationHistogram = (\<lambda>_. [])\<rparr>"

definition emptyWorld :: "quoteStore world" where
  "emptyWorld = \<lparr>store = emptyStore, metrics = emptyRegistry\<rparr>"

section \<open>The order of the submission checks\<close>

datatype check = Present | StringType | NonEmpty | TextLength | AuthorLength | Moderation

definition checkOrder :: "check list" where
  "checkOrder = [Present, StringType, NonEmpty, TextLength, AuthorLength, Moderation]"

fun stringOf :: "jsval \<Rightarrow> jsstring" where
  "stringOf (JStr s) = s"
| "stringOf _ = []"

text \<open>
  The checks, with the first one left open: \<open>present\<close> says when a field counts as given.
\<close>

fun passes :: "(jsval \<Rightarrow> bool) \<Rightarrow> profanityFilter \<Rightarrow> jsval \<Rightarrow> jsval \<Rightarrow> check \<Rightarrow> bool" where
  "passes present pf text author Present = (present text \<and> present author)"
| "passes present pf text author StringType = (isString text \<and> isString author)"
| "passes present pf text author NonEmpty =
     (trim (stringOf text) \<noteq> [] \<and> trim (stringOf author) \<noteq> [])"
| "passes present pf text author TextLength = (length (stringOf text) \<le> 1000)"
| "passes present pf text author AuthorLength = (length (stringOf author) \<le> 100)"
| "passes present pf text author Moderation =
     (case pf (stringOf text) (stringOf author) of Inl _ \<Rightarrow> True | Inr v \<Rightarrow> isValid v)"

definition firstFailure :: "(check \<Rightarrow> bool) \<Rightarrow> check option" where
  "firstFailure p = find (\<lambda>c. \<not> p c) checkOrder"

text \<open>The claim's first check: a field is present when it is neither missing nor null.\<close>

fun nonNull :: "jsval \<Rightarrow> bool" where
  "nonNull JUndefined = False"
| "nonNull JNull = False"
| "nonNull _ = True"

definition claimedRejection :: "profanityFilter \<Rightarrow> jsval \<Rightarrow> jsval \<Rightarrow> check option" where
  "claimedRejection pf text author = firstFailure (passes nonNull pf text author)"

text \<open>The check whose reason a reply reports, read off the reply's error and message.\<close>

definition rejection :: "reply \<Rightarrow> check option" where
  "rejection r =
     (case r of
        Send _ _ \<Rightarrow> None
      | Json c j \<Rightarrow>
          if c \<noteq> 400 \<or> success j then None
          else if error j = Some ''Profanity detected'' then Some Moderation
          else if error j \<noteq> Some ''Validation error'' then None
          else if message j = Some (Text msgRequired)
            then Some Present
          else if message j = Some (Text msgStrings)
            then Some StringType
          else if message j = Some (Text msgEmpty)
            then Some NonEmpty
          else if message j = Some (Text msgTextLength)
            then Some TextLength
          else if message j = Some (Text msgAuthorLength)
            then Some AuthorLength
          else None)"

definition isFailure :: "reply \<Rightarrow> bool" where
  "isFailure r = (case r of Json c j \<Rightarrow> \<not> success j | Send _ _ \<Rightarrow> False)"

definition isValidationError :: "reply \<Rightarrow> bool" where
  "isValidationError r =
     (case r of Json c j \<Rightarrow> c = 400 \<and> error j = Some ''Validation error'' | Send _ _ \<Rightarrow> False)"

section \<open>Sample inputs\<close>

text \<open>
  Inputs at which the theorems below are instantiated: submissions, a store with one quote,
  a store whose only quote has the identifier \<open>2^53\<close>, a store whose every operation fails,
  a renderer, and requests as the middleware sees them.
\<close>

definition profaneText :: jsstring where
  "profaneText = js ''This is a damn test''"

definition longProfaneText :: jsstring where
  "longProfaneText = js ''damn'' @ replicate 1000 0x61"

definition sampleQuote :: quote where
  "sampleQuote = \<lparr>quote_id = 1, quote_text = js ''Stay hungry, stay foolish.'',
                   quote_author = js ''Steve Jobs'', quote_views = 0\<rparr>"

definition oneQuoteWorld :: "quoteStore world" where
  "oneQuoteWorld = \<lparr>store = \<lparr>quotes = [sampleQuote], nextId = 2\<rparr>, metrics = emptyRegistry\<rparr>"

definition bigIdWorld :: "quoteStore world" where
  "bigIdWorld =
     \<lparr>store = \<lparr>quotes = [sampleQuote\<lparr>quote_id := 9007199254740992\<rparr>],
                nextId = 9007199254740993\<rparr>,
      metrics = emptyRegistry\<rparr>"

definition failing :: "quoteStore \<Rightarrow> (fault + 'a) \<times> quoteStore" where
  "failing s = (Inl (Fault ''SQLITE_BUSY''), s)"

definition faultyDb :: "quoteStore db" where
  "faultyDb = \<lparr>getRandomQuote = failing, addQuote = (\<lambda>t a. failing), getAllQuotes = failing,
               getStats = failing, deleteQuote = (\<lambda>i. failing)\<rparr>"

definition liveIds :: "quoteStore \<Rightarrow> jsnumber set" where
  "liveIds s = (\<lambda>q. Num (int (quote_id q))) ` set (quotes s)"

definition cleanText :: jsstring where
  "cleanText = js ''  Stay hungry, stay foolish. ''"

definition cleanAuthor :: jsstring where
  "cleanAuthor = js ''Steve Jobs ''"

definition sampleRender :: "registry \<Rightarrow> fault + string" where
  "sampleRender m = Inr (''quotes_served_total '' @ decimal (quotesServedCounter m))"

definition getQuoteRequest :: request where
  "getQuoteRequest = \<lparr>req_method = ''GET'', req_route_path = None, req_path = ''/quote'',
                       req_originalUrl = ''/quote'', req_url = ''/quote''\<rparr>"

definition deleteRequest :: "string \<Rightarrow> request" where
  "deleteRequest n = \<lparr>req_method = ''DELETE'', req_route_path = None,
                       req_path = ''/quote/'' @ n, req_originalUrl = ''/quote/'' @ n,
                       req_url = ''/quote/'' @ n\<rparr>"

section \<open>Auxiliary facts\<close>

lemma messages_distinct:
  "msgRequired \<noteq> msgStrings" "msgRequired \<noteq> msgEmpty" "msgRequired \<noteq> msgTextLength"
  "msgRequired \<noteq> msgAuthorLength" "msgStrings \<noteq> msgEmpty" "msgStrings \<noteq> msgTextLength"
  "msgStrings \<noteq> msgAuthorLength" "msgEmpty \<noteq> msgTextLength" "msgEmpty \<noteq> msgAuthorLength"
  "msgTextLength \<noteq> msgAuthorLength"
  by (simp_all add: msgRequired_def msgStrings_def msgEmpty_def msgTextLength_def
        msgAuthorLength_def quoted_def)

lemma rejection_validationError:
  "rejection (validationError msgRequired) = Some Present"
  "rejection (validationError msgStrings) = Some StringType"
  "rejection (validationError msgEmpty) = Some NonEmpty"
  "rejection (validationError msgTextLength) = Some TextLength"
  "rejection (validationError msgAuthorLength) = Some AuthorLength"
  using messages_distinct
  by (simp_all add: rejection_def validationError_def failure_def)

lemma rejection_other:
  "rejection (failure 500 e m) = None"
  "rejection (failure 400 ''Profanity detected'' m) = Some Moderation"
  "rejection (Json 201 j) = None"
  by (simp_all add: rejection_def failure_def)

lemma postQuote_falsy:
  "\<not> truthy t \<or> \<not> truthy a \<Longrightarrow> postQuote pf d t a w = (validationError msgRequired, w)"
  by (simp add: postQuote_def)

lemma postQuote_not_strings:
  "truthy t \<Longrightarrow> truthy a \<Longrightarrow> \<not> (isString t \<and> isString a) \<Longrightarrow>
   postQuote pf d t a w = (validationError msgStrings, w)"
  by (cases t; cases a) (simp_all add: postQuote_def)

lemma firstFailure_unfold:
  "firstFailure p =
     (if \<not> p Present then Some Present
      else if \<not> p StringType then Some StringType
      else if \<not> p NonEmpty then Some NonEmpty
      else if \<not> p TextLength then Some TextLength
      else if \<not> p AuthorLength then Some AuthorLength
      else if \<not> p Moderation then Some Moderation
      else None)"
  by (simp add: firstFailure_def checkOrder_def)

lemma trim_Nil [simp]: "trim [] = []"
  by (simp add: trim_def)

lemma trim_eq_Nil_iff: "trim s = [] \<longleftrightarrow> list_all isWhiteSpace s"
proof -
  have "(\<forall>x\<in>set (dropWhile isWhiteSpace s). isWhiteSpace x) \<longleftrightarrow> dropWhile isWhiteSpace s = []"
  proof (cases "dropWhile isWhiteSpace s")
    case Nil
    then show ?thesis by (simp del: dropWhile_eq_Nil_conv)
  next
    case (Cons c cs)
    then have "\<not> isWhiteSpace c" by (metis hd_dropWhile list.sel(1) list.distinct(1))
    with Cons show ?thesis by (auto simp del: dropWhile_eq_Nil_conv)
  qed
  then show ?thesis
    by (auto simp add: trim_def dropWhile_eq_Nil_conv list_all_iff dest: set_dropWhileD)
qed

lemma postQuote_strings:
  "rejection (fst (postQuote pf d (JStr t) (JStr a) w)) =
     firstFailure (passes truthy pf (JStr t) (JStr a))"
  by (auto simp add: postQuote_def firstFailure_unfold rejection_validationError rejection_other
        split: sum.splits prod.splits)

lemma check_order:
  "rejection (fst (postQuote pf d t a w)) = firstFailure (passes truthy pf t a)"
proof (cases "truthy t \<and> truthy a")
  case False
  then show ?thesis
    by (auto simp add: postQuote_falsy firstFailure_unfold rejection_validationError)
next
  case present: True
  show ?thesis
  proof (cases "isString t \<and> isString a")
    case False
    with present show ?thesis
      by (auto simp add: postQuote_not_strings firstFailure_unfold rejection_validationError)
  next
    case True
    then obtain x y where "t = JStr x" "a = JStr y"
      by (cases t; cases a) simp_all
    then show ?thesis by (simp add: postQuote_strings)
  qed
qed

lemma world_simps [simp]:
  "store (inc_quotesAdded w) = store w"
  "store (inc_profanityBlocked w) = store w"
  "store (inc_quotesServed w) = store w"
  "profanityBlockedCounter (metrics (inc_quotesAdded w)) = profanityBlockedCounter (metrics w)"
  "profanityBlockedCounter (metrics (inc_profanityBlocked w)) = profanityBlockedCounter (metrics w) + 1"
  "quotesServedCounter (metrics (inc_quotesServed w)) = quotesServedCounter (metrics w) + 1"
  "quotesAddedCounter (metrics (inc_quotesAdded w)) = quotesAddedCounter (metrics w) + 1"
  by (simp_all add: inc_quotesAdded_def inc_profanityBlocked_def inc_quotesServed_def)

lemma postQuote_cases:
  obtains
    (falsy) "\<not> truthy t \<or> \<not> truthy a"
  | (not_strings) "truthy t" "truthy a" "\<not> (isString t \<and> isString a)"
  | (strings) x y where "t = JStr x" "a = JStr y"
  by (cases t; cases a) auto

lemma postQuote_structural:
  assumes "rejection (fst (postQuote pf d t a w)) = Some c" "c \<noteq> Moderation"
  shows "postQuote pf' d' t a w = postQuote pf d t a w \<and> snd (postQuote pf d t a w) = w"
proof (cases t a rule: postQuote_cases)
  case falsy
  then show ?thesis by (simp add: postQuote_falsy)
next
  case not_strings
  then show ?thesis by (simp add: postQuote_not_strings)
next
  case (strings x y)
  with assms show ?thesis
    by (auto simp add: postQuote_def rejection_validationError rejection_other
          split: sum.splits prod.splits if_splits)
qed

lemma postQuote_moderation:
  assumes "rejection (fst (postQuote pf d t a w)) = Some Moderation"
  shows "postQuote pf d' t a w = postQuote pf d t a w \<and>
         snd (postQuote pf d t a w) = inc_profanityBlocked w"
proof (cases t a rule: postQuote_cases)
  case falsy
  with assms show ?thesis by (simp add: postQuote_falsy rejection_validationError)
next
  case not_strings
  with assms show ?thesis by (simp add: postQuote_not_strings rejection_validationError)
next
  case (strings x y)
  with assms show ?thesis
    by (auto simp add: postQuote_def rejection_validationError rejection_other
          split: sum.splits prod.splits if_splits)
qed

lemma postQuote_not_rejected:
  assumes "rejection (fst (postQuote pf d t a w)) = None"
  shows "profanityBlockedCounter (metrics (snd (postQuote pf d t a w))) =
         profanityBlockedCounter (metrics w)"
proof (cases t a rule: postQuote_cases)
  case falsy
  with assms show ?thesis by (simp add: postQuote_falsy rejection_validationError)
next
  case not_strings
  with assms show ?thesis by (simp add: postQuote_not_strings rejection_validationError)
next
  case (strings x y)
  with assms show ?thesis
    by (auto simp add: postQuote_def rejection_validationError rejection_other
          split: sum.splits prod.splits if_splits)
qed

lemma sampleFilter_profaneText:
  "sampleFilter profaneText (js ''X'')
     = Inr \<lparr>isValid = False, validation_message = ''Profanity detected''\<rparr>"
  by (simp add: sampleFilter_def spec_validateQuote_def profaneText_def js_def toLower_def)

lemma profane_submission:
  "postQuote sampleFilter d (JStr profaneText) (JStr (js ''X'')) w =
     (failure 400 ''Profanity detected'' (Some ''Profanity detected''), inc_profanityBlocked w)"
proof -
  have "trim profaneText \<noteq> []" "trim (js ''X'') \<noteq> []"
    by (simp_all add: trim_eq_Nil_iff profaneText_def js_def isWhiteSpace_def)
  moreover have "length profaneText \<le> 1000" "length (js ''X'') \<le> 100"
    by (simp_all add: profaneText_def js_def)
  moreover have "profaneText \<noteq> []" "js ''X'' \<noteq> []"
    by (simp_all add: profaneText_def js_def)
  ultimately show ?thesis
    by (simp add: postQuote_def sampleFilter_profaneText)
qed

section \<open>Submission: order of the checks\<close>

text \<open>
  C1, as claimed: the reason of a rejected submission is that of the first failing check in
  the order present and non-null, string type, non-empty after trimming, text length,
  author length, moderation. This fails where a field is present but falsy: an empty
  string is present, non-null and a string, so the claimed first failure is the emptiness
  check, while the handler's first test \<open>!text || !author\<close> already rejects it as a
  required field that is missing.
\<close>

theorem claimed_check_order_counterexample:
  "rejection (fst (postQuote sampleFilter (specDb firstPick) (JStr []) (JStr (js ''A''))
      emptyWorld)) = Some Present
   \<and> claimedRejection sampleFilter (JStr []) (JStr (js ''A'')) = Some NonEmpty"
  by (simp add: postQuote_def rejection_validationError claimedRejection_def firstFailure_unfold)

text \<open>
  C1, amended: for every submitted pair the reason of the rejection is that of the first
  failing check in the order (1) both fields truthy, that is present, non-null and also
  not the empty string, zero or false, (2) both strings, (3) both non-empty after trimming,
  (4) text length at most 1000 on the untrimmed string, (5) author length at most 100 on
  the untrimmed string, (6) moderation; and there is no rejection when none fails. In
  particular an over-length submission is rejected for its length whatever the filter says
  about it.
\<close>

theorem submission_check_order:
  "rejection (fst (postQuote pf d text author w)) = firstFailure (passes truthy pf text author)
   \<and> (trim t \<noteq> [] \<and> trim a \<noteq> [] \<and> (1000 < length t \<or> 100 < length a) \<longrightarrow>
        rejection (fst (postQuote pf d (JStr t) (JStr a) w)) =
          Some (if 1000 < length t then TextLength else AuthorLength))"
proof -
  have "trim t \<noteq> [] \<Longrightarrow> t \<noteq> []" "trim a \<noteq> [] \<Longrightarrow> a \<noteq> []"
    by auto
  then show ?thesis
    by (auto simp add: check_order firstFailure_unfold)
qed

theorem submission_check_order_witness:
  "sampleFilter longProfaneText (js ''X'')
     = Inr \<lparr>isValid = False, validation_message = ''Profanity detected''\<rparr>
   \<and> rejection (fst (postQuote sampleFilter (specDb firstPick) (JStr longProfaneText)
        (JStr (js ''X'')) emptyWorld)) = Some TextLength"
proof -
  have 1: "trim longProfaneText \<noteq> []"
    by (simp add: trim_eq_Nil_iff longProfaneText_def js_def isWhiteSpace_def)
  have 2: "trim (js ''X'') \<noteq> []"
    by (simp add: trim_eq_Nil_iff js_def isWhiteSpace_def)
  have 3: "1000 < length longProfaneText"
    by (simp add: longProfaneText_def js_def)
  have 4: "sampleFilter longProfaneText (js ''X'')
     = Inr \<lparr>isValid = False, validation_message = ''Profanity detected''\<rparr>"
    by (simp add: sampleFilter_def spec_validateQuote_def longProfaneText_def js_def toLower_def)
  from 1 2 3 4 submission_check_order [of sampleFilter "specDb firstPick" JNull JNull emptyWorld
      longProfaneText "js ''X''"]
  show ?thesis by simp
qed

section \<open>Submission: rejections and the store\<close>

text \<open>
  C2: a submission rejected by a structural check or by the moderation filter leaves the
  store as it was, and the outcome is the same for every implementation of the store
  operations: \<open>addQuote\<close> is not called.
\<close>

theorem rejected_submission_leaves_store:
  assumes "rejection (fst (postQuote pf d text author w)) \<noteq> None"
  shows "store (snd (postQuote pf d text author w)) = store w
         \<and> postQuote pf d' text author w = postQuote pf d text author w"
proof -
  from assms obtain c where c: "rejection (fst (postQuote pf d text author w)) = Some c"
    by auto
  show ?thesis
  proof (cases "c = Moderation")
    case True
    with c postQuote_moderation [of pf d "text" author w d'] show ?thesis by simp
  next
    case False
    with c postQuote_structural [of pf d "text" author w c pf d'] show ?thesis by simp
  qed
qed

theorem rejected_submission_leaves_store_witness:
  "rejection (fst (postQuote sampleFilter (specDb firstPick) (JStr profaneText) (JStr (js ''X''))
       emptyWorld)) = Some Moderation
   \<and> quotes (store (snd (postQuote sampleFilter (specDb firstPick) (JStr profaneText)
       (JStr (js ''X'')) emptyWorld))) = []"
proof -
  have r: "rejection (fst (postQuote sampleFilter (specDb firstPick) (JStr profaneText)
       (JStr (js ''X'')) emptyWorld)) = Some Moderation"
    by (simp add: profane_submission rejection_other)
  then have "rejection (fst (postQuote sampleFilter (specDb firstPick) (JStr profaneText)
       (JStr (js ''X'')) emptyWorld)) \<noteq> None"
    by simp
  from rejected_submission_leaves_store [OF this, of "specDb firstPick"] r
  show ?thesis by (simp add: emptyWorld_def emptyStore_def)
qed

section \<open>Submission: the blocked counter\<close>

text \<open>
  C3: the profanity-blocked counter goes up by one exactly when the submission is rejected
  by the moderation filter. When a structural check rejects the submission (a missing
  field, a wrong type, an empty or over-length field), the counter and the whole registry
  are unchanged and the outcome is the same for every filter: the filter is not invoked.
\<close>

theorem blocked_counter_counts_moderation_only:
  "profanityBlockedCounter (metrics (snd (postQuote pf d text author w))) =
     profanityBlockedCounter (metrics w) +
       (if rejection (fst (postQuote pf d text author w)) = Some Moderation then 1 else 0)
   \<and> (rejection (fst (postQuote pf d text author w))
         \<in> {Some Present, Some StringType, Some NonEmpty, Some TextLength, Some AuthorLength}
       \<longrightarrow> postQuote pf' d text author w = postQuote pf d text author w
           \<and> metrics (snd (postQuote pf d text author w)) = metrics w)"
proof (cases "rejection (fst (postQuote pf d text author w))")
  case None
  then show ?thesis by (simp add: postQuote_not_rejected)
next
  case (Some c)
  show ?thesis
  proof (cases "c = Moderation")
    case True
    with Some postQuote_moderation [of pf d "text" author w d] show ?thesis by simp
  next
    case False
    with Some postQuote_structural [of pf d "text" author w c pf' d]
      postQuote_structural [of pf d "text" author w c pf d]
    show ?thesis by simp
  qed
qed

theorem blocked_counter_counts_moderation_only_witness:
  "rejection (fst (postQuote sampleFilter (specDb firstPick) (JStr (js ''Only text'')) JUndefined
       emptyWorld)) = Some Present
   \<and> profanityBlockedCounter (metrics (snd (postQuote sampleFilter (specDb firstPick)
       (JStr (js ''Only text'')) JUndefined emptyWorld))) = 0
   \<and> profanityBlockedCounter (metrics (snd (postQuote sampleFilter (specDb firstPick)
       (JStr profaneText) (JStr (js ''X'')) emptyWorld))) = 1"
proof -
  have r: "rejection (fst (postQuote sampleFilter (specDb firstPick) (JStr (js ''Only text''))
       JUndefined emptyWorld)) = Some Present"
    by (simp add: postQuote_falsy rejection_validationError)
  have m: "rejection (fst (postQuote sampleFilter (specDb firstPick) (JStr profaneText)
       (JStr (js ''X'')) emptyWorld)) = Some Moderation"
    by (simp add: profane_submission rejection_other)
  from r m
    blocked_counter_counts_moderation_only [of sampleFilter "specDb firstPick"
      "JStr (js ''Only text'')" JUndefined emptyWorld sampleFilter]
    blocked_counter_counts_moderation_only [of sampleFilter "specDb firstPick"
      "JStr profaneText" "JStr (js ''X'')" emptyWorld sampleFilter]
  show ?thesis by (simp add: emptyWorld_def emptyRegistry_def)
qed

section \<open>Facts about the read and delete handlers\<close>

lemma getQuote_none:
  "fst (getRandomQuote d (store w)) = Inr None \<Longrightarrow>
   getQuote d w = (failure 404 ''No quotes found in database'' None,
                   w\<lparr>store := snd (getRandomQuote d (store w))\<rparr>)"
  by (cases "getRandomQuote d (store w)") (simp add: getQuote_def)

lemma getQuote_fault:
  "fst (getRandomQuote d (store w)) = Inl e \<Longrightarrow>
   getQuote d w = (failure 500 ''Failed to fetch quote'' (Some (faultMessage e)),
                   w\<lparr>store := snd (getRandomQuote d (store w))\<rparr>)"
  by (cases "getRandomQuote d (store w)") (simp add: getQuote_def)

lemma getQuote_some:
  "fst (getRandomQuote d (store w)) = Inr (Some q) \<Longrightarrow>
   getQuote d w = (Json 200 \<lparr>success = True, error = None, message = None,
                             data = Some (QuoteData q)\<rparr>,
                   inc_quotesServed (w\<lparr>store := snd (getRandomQuote d (store w))\<rparr>))"
  by (cases "getRandomQuote d (store w)") (simp add: getQuote_def)

lemma metrics_inc_quotesServed:
  "quotesServedCounter (metrics (inc_quotesServed w)) = quotesServedCounter (metrics w) + 1"
  by (simp add: inc_quotesServed_def)

lemma binaryExponent_small: "n < 9007199254740992 \<Longrightarrow> binaryExponent n = 0"
  by (simp add: binaryExponent.simps)


lemma roundToDouble_exact: "n \<le> 9007199254740992 \<Longrightarrow> roundToDouble n = Some n"
proof (cases "n < 9007199254740992")
  case True
  then have "n < 2 ^ 1024"
    by (rule less_trans) simp
  with True show ?thesis
    by (simp add: roundToDouble_def binaryExponent_small)
next
  case False
  assume "n \<le> 9007199254740992"
  with False have n: "n = 9007199254740992" by simp
  have "binaryExponent 9007199254740992 = Suc 0"
    by (simp add: binaryExponent.simps)
  then show ?thesis
    by (simp add: roundToDouble_def n)
qed


lemma toNumber_exact: "n \<le> 9007199254740992 \<Longrightarrow> toNumber sign n = Num (sign * int n)"
  by (simp add: toNumber_def roundToDouble_exact)


lemma parseInt_one: "parseInt (js ''1'') = Num 1"
  by (simp add: parseInt_def js_def isWhiteSpace_def isDigit_def decimalValue_def digitValue_def
        toNumber_exact)

lemma deleteQuoteRoute_malformed:
  "isNaN (parseInt p) \<or> leZero (parseInt p) \<Longrightarrow>
   deleteQuoteRoute d p w = (validationError ''Quote id must be a positive integer'', w)"
  by (simp add: deleteQuoteRoute_def Let_def)

lemma deleteQuoteRoute_wellformed:
  "\<not> isNaN (parseInt p) \<Longrightarrow> \<not> leZero (parseInt p) \<Longrightarrow>
   deleteQuoteRoute d p w =
     (case fst (deleteQuote d (parseInt p) (store w)) of
        Inl e \<Rightarrow> failure 500 ''Failed to delete quote'' (Some (faultMessage e))
      | Inr removed \<Rightarrow>
          if removed then Json 200 \<lparr>success = True, error = None,
                             message = Some (Text ''Quote deleted successfully''), data = None\<rparr>
          else notFound (parseInt p),
      w\<lparr>store := snd (deleteQuote d (parseInt p) (store w))\<rparr>)"
  by (cases "deleteQuote d (parseInt p) (store w)")
     (simp add: deleteQuoteRoute_def Let_def split: sum.splits)

lemma isValidationError_simps:
  "isValidationError (validationError m)"
  "\<not> isValidationError (failure 500 e x)"
  "\<not> isValidationError (failure 404 e x)"
  "\<not> isValidationError (notFound n)"
  "\<not> isValidationError (Json 200 j)"
  by (simp_all add: isValidationError_def validationError_def failure_def notFound_def)

lemma isValidationError_delete:
  "isValidationError (fst (deleteQuoteRoute d p w)) \<longleftrightarrow>
     isNaN (parseInt p) \<or> leZero (parseInt p)"
proof (cases "isNaN (parseInt p) \<or> leZero (parseInt p)")
  case True
  then show ?thesis by (simp add: deleteQuoteRoute_malformed isValidationError_simps)
next
  case False
  then show ?thesis
    by (simp add: deleteQuoteRoute_wellformed isValidationError_simps split: sum.splits)
qed

lemma spec_deleteQuote_absent:
  "n \<notin> liveIds s \<Longrightarrow> deleteQuote (specDb pick) n s = (Inr False, s)"
proof -
  assume "n \<notin> liveIds s"
  then have "filter (\<lambda>q. Num (int (quote_id q)) \<noteq> n) (quotes s) = quotes s"
    by (auto simp add: liveIds_def filter_id_conv)
  with \<open>n \<notin> liveIds s\<close> show ?thesis
    by (simp add: specDb_def spec_deleteQuote_def liveIds_def)
qed

lemma spec_deleteQuote_present:
  "n \<in> liveIds s \<Longrightarrow>
   fst (deleteQuote (specDb pick) n s) = Inr True \<and>
   n \<notin> liveIds (snd (deleteQuote (specDb pick) n s))"
  by (auto simp add: specDb_def spec_deleteQuote_def liveIds_def)

lemma parseInt_rounded: "parseInt (js ''9007199254740993'') = Num 9007199254740992"
proof -
  have d: "decimalValue (js ''9007199254740993'') = 9007199254740993"
    by (simp add: js_def decimalValue_def digitValue_def)
  have e: "binaryExponent 9007199254740993 = Suc 0"
    by (simp add: binaryExponent.simps)
  have "roundToDouble 9007199254740993 = Some 9007199254740992"
    by (simp add: roundToDouble_def e)
  then have "toNumber 1 (decimalValue (js ''9007199254740993'')) = Num 9007199254740992"
    by (simp add: toNumber_def d)
  moreover have "parseInt (js ''9007199254740993'') =
      toNumber 1 (decimalValue (js ''9007199254740993''))"
    by (simp add: parseInt_def js_def isWhiteSpace_def isDigit_def)
  ultimately show ?thesis by simp
qed

section \<open>Random quote: none is not a fault\<close>

text \<open>
  C4: on an empty store \<open>getRandomQuote\<close> returns none and does not fail. The handler takes
  none on a branch of its own, outside the fault handling, and answers it with the reply
  "No quotes found in database" (404); a store fault is answered with the reply "Failed to
  fetch quote" (500), a different reply. In both cases the registry is unchanged: the
  quotes-served counter goes up by one only when a quote is returned.
\<close>

theorem random_quote_outcomes:
  "(quotes s = [] \<longrightarrow> getRandomQuote (specDb pick) s = (Inr None, s))
   \<and> (fst (getRandomQuote d (store w)) = Inr None \<longrightarrow>
        fst (getQuote d w) = failure 404 ''No quotes found in database'' None
        \<and> metrics (snd (getQuote d w)) = metrics w)
   \<and> (fst (getRandomQuote d (store w)) = Inl e \<longrightarrow>
        fst (getQuote d w) = failure 500 ''Failed to fetch quote'' (Some (faultMessage e))
        \<and> metrics (snd (getQuote d w)) = metrics w)
   \<and> (fst (getRandomQuote d (store w)) = Inr (Some q) \<longrightarrow>
        fst (getQuote d w) =
          Json 200 \<lparr>success = True, error = None, message = None, data = Some (QuoteData q)\<rparr>
        \<and> quotesServedCounter (metrics (snd (getQuote d w))) =
            quotesServedCounter (metrics w) + 1)
   \<and> failure 404 ''No quotes found in database'' None
        \<noteq> failure 500 ''Failed to fetch quote'' (Some m)"
proof -
  have "quotes s = [] \<longrightarrow> getRandomQuote (specDb pick) s = (Inr None, s)"
    by (simp add: specDb_def spec_getRandomQuote_def)
  moreover have "failure 404 ''No quotes found in database'' None
        \<noteq> failure 500 ''Failed to fetch quote'' (Some m)"
    by (simp add: failure_def)
  ultimately show ?thesis
    by (simp add: getQuote_none getQuote_fault getQuote_some metrics_inc_quotesServed)
qed

theorem random_quote_outcomes_witness:
  "fst (getQuote (specDb firstPick) emptyWorld) = failure 404 ''No quotes found in database'' None
   \<and> quotesServedCounter (metrics (snd (getQuote (specDb firstPick) emptyWorld))) = 0
   \<and> fst (getQuote faultyDb emptyWorld) =
       failure 500 ''Failed to fetch quote'' (Some ''SQLITE_BUSY'')
   \<and> quotesServedCounter (metrics (snd (getQuote faultyDb emptyWorld))) = 0
   \<and> fst (getQuote (specDb firstPick) oneQuoteWorld) =
       Json 200 \<lparr>success = True, error = None, message = None,
                  data = Some (QuoteData (sampleQuote\<lparr>quote_views := 1\<rparr>))\<rparr>
   \<and> quotesServedCounter (metrics (snd (getQuote (specDb firstPick) oneQuoteWorld))) = 1"
proof -
  have e: "quotes (store emptyWorld) = []"
    by (simp add: emptyWorld_def emptyStore_def)
  have f: "fst (getRandomQuote faultyDb (store emptyWorld)) = Inl (Fault ''SQLITE_BUSY'')"
    by (simp add: faultyDb_def failing_def)
  have o: "fst (getRandomQuote (specDb firstPick) (store oneQuoteWorld)) =
             Inr (Some (sampleQuote\<lparr>quote_views := 1\<rparr>))"
    by (simp add: specDb_def spec_getRandomQuote_def oneQuoteWorld_def firstPick_def
          sampleQuote_def Let_def)
  from e
    random_quote_outcomes [of "store emptyWorld" firstPick "specDb firstPick" emptyWorld]
  have 1: "fst (getQuote (specDb firstPick) emptyWorld) =
             failure 404 ''No quotes found in database'' None
           \<and> metrics (snd (getQuote (specDb firstPick) emptyWorld)) = metrics emptyWorld"
    by simp
  from f random_quote_outcomes [of emptyStore firstPick faultyDb emptyWorld "Fault ''SQLITE_BUSY''"]
  have 2: "fst (getQuote faultyDb emptyWorld) =
             failure 500 ''Failed to fetch quote'' (Some ''SQLITE_BUSY'')
           \<and> metrics (snd (getQuote faultyDb emptyWorld)) = metrics emptyWorld"
    by simp
  from o random_quote_outcomes [of emptyStore firstPick "specDb firstPick" oneQuoteWorld _
      "sampleQuote\<lparr>quote_views := 1\<rparr>"]
  have 3: "fst (getQuote (specDb firstPick) oneQuoteWorld) =
       Json 200 \<lparr>success = True, error = None, message = None,
                  data = Some (QuoteData (sampleQuote\<lparr>quote_views := 1\<rparr>))\<rparr>
     \<and> quotesServedCounter (metrics (snd (getQuote (specDb firstPick) oneQuoteWorld))) =
         quotesServedCounter (metrics oneQuoteWorld) + 1"
    by simp
  from 1 2 3 show ?thesis
    by (simp add: emptyWorld_def emptyRegistry_def oneQuoteWorld_def)
qed

section \<open>Removing a quote\<close>

text \<open>
  C5, as claimed: the only failure that removing a quote signals is a ValidationError for
  a malformed id, and an id that is not in the store is no error and is reported as false.
  On the code there are two more failure replies, neither of them a ValidationError: a
  fault of the store is signalled as "Failed to delete quote" (500), and a well-formed id
  that is not in the store is answered with "Not Found" (404, success false).
\<close>

theorem claimed_remove_outcomes_counterexample:
  "fst (deleteQuoteRoute faultyDb (js ''1'') emptyWorld) =
     failure 500 ''Failed to delete quote'' (Some ''SQLITE_BUSY'')
   \<and> isFailure (fst (deleteQuoteRoute faultyDb (js ''1'') emptyWorld))
   \<and> \<not> isValidationError (fst (deleteQuoteRoute faultyDb (js ''1'') emptyWorld))
   \<and> fst (deleteQuoteRoute (specDb firstPick) (js ''1'') emptyWorld) = notFound (Num 1)
   \<and> isFailure (fst (deleteQuoteRoute (specDb firstPick) (js ''1'') emptyWorld))
   \<and> \<not> isValidationError (fst (deleteQuoteRoute (specDb firstPick) (js ''1'') emptyWorld))"
proof -
  have 1: "fst (deleteQuoteRoute (specDb firstPick) (js ''1'') emptyWorld) = notFound (Num 1)"
    by (simp add: deleteQuoteRoute_def parseInt_one specDb_def spec_deleteQuote_def
          emptyWorld_def emptyStore_def)
  have 2: "fst (deleteQuoteRoute faultyDb (js ''1'') emptyWorld) =
       failure 500 ''Failed to delete quote'' (Some ''SQLITE_BUSY'')"
    by (simp add: deleteQuoteRoute_def parseInt_one faultyDb_def failing_def)
  show ?thesis
    unfolding 1 2 by (simp add: isFailure_def isValidationError_def failure_def notFound_def)
qed

text \<open>
  C5, amended: the handler signals a ValidationError exactly when the id parameter is
  malformed (the parsed number is NaN or not positive), and then changes nothing. For a
  well-formed id it calls \<open>deleteQuote\<close> with the parsed number, and the outcome of that
  call decides the reply: true gives the success reply, false gives the failure reply
  "Not Found" (404) about that number, and a fault of the store gives the failure reply
  "Failed to delete quote" (500); the registry is unchanged. In the store, deleting an id
  that is not live returns false and leaves the store as it was, and deleting a live id
  returns true and removes it.
\<close>

theorem remove_quote_outcomes:
  "(isValidationError (fst (deleteQuoteRoute d p w)) \<longleftrightarrow>
      isNaN (parseInt p) \<or> leZero (parseInt p))
   \<and> (isValidationError (fst (deleteQuoteRoute d p w)) \<longrightarrow> snd (deleteQuoteRoute d p w) = w)
   \<and> (\<not> isNaN (parseInt p) \<and> \<not> leZero (parseInt p) \<longrightarrow>
        (fst (deleteQuote d (parseInt p) (store w)) = Inr True \<longrightarrow>
           fst (deleteQuoteRoute d p w) =
             Json 200 \<lparr>success = True, error = None,
                        message = Some (Text ''Quote deleted successfully''), data = None\<rparr>)
        \<and> (fst (deleteQuote d (parseInt p) (store w)) = Inr False \<longrightarrow>
           fst (deleteQuoteRoute d p w) = notFound (parseInt p))
        \<and> (fst (deleteQuote d (parseInt p) (store w)) = Inl e \<longrightarrow>
           fst (deleteQuoteRoute d p w) =
             failure 500 ''Failed to delete quote'' (Some (faultMessage e)))
        \<and> store (snd (deleteQuoteRoute d p w)) = snd (deleteQuote d (parseInt p) (store w))
        \<and> metrics (snd (deleteQuoteRoute d p w)) = metrics w)
   \<and> (n \<notin> liveIds s \<longrightarrow> deleteQuote (specDb pick) n s = (Inr False, s))
   \<and> (n \<in> liveIds s \<longrightarrow>
        fst (deleteQuote (specDb pick) n s) = Inr True
        \<and> n \<notin> liveIds (snd (deleteQuote (specDb pick) n s)))"
proof -
  have a: "isValidationError (fst (deleteQuoteRoute d p w)) \<longleftrightarrow>
      isNaN (parseInt p) \<or> leZero (parseInt p)"
    by (rule isValidationError_delete)
  have b: "isValidationError (fst (deleteQuoteRoute d p w)) \<longrightarrow> snd (deleteQuoteRoute d p w) = w"
    unfolding a by (simp add: deleteQuoteRoute_malformed)
  have c: "\<not> isNaN (parseInt p) \<and> \<not> leZero (parseInt p) \<longrightarrow>
        (fst (deleteQuote d (parseInt p) (store w)) = Inr True \<longrightarrow>
           fst (deleteQuoteRoute d p w) =
             Json 200 \<lparr>success = True, error = None,
                        message = Some (Text ''Quote deleted successfully''), data = None\<rparr>)
        \<and> (fst (deleteQuote d (parseInt p) (store w)) = Inr False \<longrightarrow>
           fst (deleteQuoteRoute d p w) = notFound (parseInt p))
        \<and> (fst (deleteQuote d (parseInt p) (store w)) = Inl e \<longrightarrow>
           fst (deleteQuoteRoute d p w) =
             failure 500 ''Failed to delete quote'' (Some (faultMessage e)))
        \<and> store (snd (deleteQuoteRoute d p w)) = snd (deleteQuote d (parseInt p) (store w))
        \<and> metrics (snd (deleteQuoteRoute d p w)) = metrics w"
    by (simp add: deleteQuoteRoute_wellformed)
  from a b c spec_deleteQuote_absent [of n s pick] spec_deleteQuote_present [of n s pick]
  show ?thesis by blast
qed

theorem remove_quote_outcomes_witness:
  "fst (deleteQuoteRoute (specDb firstPick) (js ''1'') oneQuoteWorld) =
     Json 200 \<lparr>success = True, error = None,
                message = Some (Text ''Quote deleted successfully''), data = None\<rparr>
   \<and> quotes (store (snd (deleteQuoteRoute (specDb firstPick) (js ''1'') oneQuoteWorld))) = []
   \<and> isValidationError (fst (deleteQuoteRoute (specDb firstPick) (js ''abc'') oneQuoteWorld))
   \<and> snd (deleteQuoteRoute (specDb firstPick) (js ''abc'') oneQuoteWorld) = oneQuoteWorld
   \<and> fst (deleteQuoteRoute (specDb firstPick) (js ''9007199254740993'') bigIdWorld) =
       Json 200 \<lparr>success = True, error = None,
                  message = Some (Text ''Quote deleted successfully''), data = None\<rparr>
   \<and> quotes (store (snd (deleteQuoteRoute (specDb firstPick) (js ''9007199254740993'')
         bigIdWorld))) = []
   \<and> fst (deleteQuoteRoute (specDb firstPick) (js ''9007199254740993'') oneQuoteWorld) =
       notFound (Num 9007199254740992)"
proof -
  have n: "parseInt (js ''abc'') = NaN"
    by (simp add: parseInt_def js_def isWhiteSpace_def isDigit_def)
  have v: "isValidationError (fst (deleteQuoteRoute (specDb firstPick) (js ''abc'') oneQuoteWorld))
     \<and> snd (deleteQuoteRoute (specDb firstPick) (js ''abc'') oneQuoteWorld) = oneQuoteWorld"
    using remove_quote_outcomes [of "specDb firstPick" "js ''abc''" oneQuoteWorld] n by simp
  have d1: "deleteQuote (specDb firstPick) (Num 1) (store oneQuoteWorld) =
             (Inr True, \<lparr>quotes = [], nextId = 2\<rparr>)"
    by (simp add: specDb_def spec_deleteQuote_def oneQuoteWorld_def sampleQuote_def)
  have d2: "deleteQuote (specDb firstPick) (Num 9007199254740992) (store bigIdWorld) =
             (Inr True, \<lparr>quotes = [], nextId = 9007199254740993\<rparr>)"
    by (simp add: specDb_def spec_deleteQuote_def bigIdWorld_def sampleQuote_def)
  have d3: "fst (deleteQuote (specDb firstPick) (Num 9007199254740992) (store oneQuoteWorld)) =
             Inr False"
    by (simp add: specDb_def spec_deleteQuote_def oneQuoteWorld_def sampleQuote_def)
  from parseInt_one d1
    remove_quote_outcomes [of "specDb firstPick" "js ''1''" oneQuoteWorld]
  have 1: "fst (deleteQuoteRoute (specDb firstPick) (js ''1'') oneQuoteWorld) =
     Json 200 \<lparr>success = True, error = None,
                message = Some (Text ''Quote deleted successfully''), data = None\<rparr>
     \<and> store (snd (deleteQuoteRoute (specDb firstPick) (js ''1'') oneQuoteWorld)) =
         \<lparr>quotes = [], nextId = 2\<rparr>"
    by simp
  from parseInt_rounded d2
    remove_quote_outcomes [of "specDb firstPick" "js ''9007199254740993''" bigIdWorld]
  have 2: "fst (deleteQuoteRoute (specDb firstPick) (js ''9007199254740993'') bigIdWorld) =
     Json 200 \<lparr>success = True, error = None,
                message = Some (Text ''Quote deleted successfully''), data = None\<rparr>
     \<and> store (snd (deleteQuoteRoute (specDb firstPick) (js ''9007199254740993'') bigIdWorld)) =
         \<lparr>quotes = [], nextId = 9007199254740993\<rparr>"
    by simp
  from parseInt_rounded d3
    remove_quote_outcomes [of "specDb firstPick" "js ''9007199254740993''" oneQuoteWorld]
  have 3: "fst (deleteQuoteRoute (specDb firstPick) (js ''9007199254740993'') oneQuoteWorld) =
       notFound (Num 9007199254740992)"
    by simp
  from v 1 2 3 show ?thesis by simp
qed

section \<open>The modelled store keeps its identifiers fresh\<close>

text \<open>
  The empty store satisfies \<open>storeOk\<close> and every operation of the modelled store preserves
  it; the next identifier never decreases.
\<close>

lemma storeOk_empty: "storeOk emptyStore"
  by (simp add: storeOk_def emptyStore_def)

lemma storeOk_fresh:
  assumes "storeOk s"
  shows "0 < nextId s" "nextId s \<notin> quote_id ` set (quotes s)"
  using assms by (auto simp add: storeOk_def list_all_iff)

lemma storeOk_addQuote:
  assumes "storeOk s"
  shows "storeOk (snd (addQuote (specDb pick) t a s))"
proof -
  have "list_all (\<lambda>q. 0 < quote_id q \<and> quote_id q < Suc (nextId s)) (quotes s)"
    using assms by (auto simp add: storeOk_def list_all_iff)
  moreover have "nextId s \<notin> quote_id ` set (quotes s)" "0 < nextId s"
    using assms by (rule storeOk_fresh)+
  ultimately show ?thesis
    using assms by (simp add: specDb_def spec_addQuote_def storeOk_def Let_def)
qed

lemma storeOk_deleteQuote:
  assumes "storeOk s"
  shows "storeOk (snd (deleteQuote (specDb pick) i s))"
  using assms
  by (auto simp add: specDb_def spec_deleteQuote_def storeOk_def list_all_iff distinct_map_filter)

lemma map_quote_id_update:
  "i < length qs \<Longrightarrow> map quote_id (qs[i := (qs ! i)\<lparr>quote_views := v\<rparr>]) = map quote_id qs"
  by (simp add: list_eq_iff_nth_eq nth_list_update)

lemma storeOk_getRandomQuote:
  assumes "storeOk s"
  shows "storeOk (snd (getRandomQuote (specDb pick) s))"
proof (cases "quotes s = []")
  case True
  with assms show ?thesis by (simp add: specDb_def spec_getRandomQuote_def)
next
  case False
  let ?i = "pick s mod length (quotes s)"
  let ?qs = "(quotes s)[?i := (quotes s ! ?i)\<lparr>quote_views := quote_views (quotes s ! ?i) + 1\<rparr>]"
  from False have i: "?i < length (quotes s)" by simp
  have m: "map quote_id ?qs = map quote_id (quotes s)"
    using i by (rule map_quote_id_update)
  have "list_all (\<lambda>q. 0 < quote_id q \<and> quote_id q < nextId s) ?qs \<longleftrightarrow>
        list_all (\<lambda>n. 0 < n \<and> n < nextId s) (map quote_id ?qs)"
    by (simp add: list_all_iff)
  also have "\<dots> \<longleftrightarrow> list_all (\<lambda>q. 0 < quote_id q \<and> quote_id q < nextId s) (quotes s)"
    unfolding m by (simp add: list_all_iff)
  finally have "list_all (\<lambda>q. 0 < quote_id q \<and> quote_id q < nextId s) ?qs"
    using assms by (simp add: storeOk_def)
  with assms m False show ?thesis
    by (simp add: specDb_def spec_getRandomQuote_def storeOk_def Let_def)
qed

lemma nextId_mono:
  "nextId s \<le> nextId (snd (addQuote (specDb pick) t a s))"
  "nextId (snd (deleteQuote (specDb pick) i s)) = nextId s"
  "nextId (snd (getRandomQuote (specDb pick) s)) = nextId s"
  "snd (getStats (specDb pick) s) = s"
  "snd (getAllQuotes (specDb pick) s) = s"
  by (simp_all add: specDb_def spec_addQuote_def spec_deleteQuote_def spec_getRandomQuote_def
        spec_getStats_def spec_getAllQuotes_def Let_def)

lemma postQuote_accepted:
  assumes "trim t \<noteq> []" "trim a \<noteq> []" "length t \<le> 1000" "length a \<le> 100"
    and "pf t a = Inr v" "isValid v"
  shows "postQuote pf d (JStr t) (JStr a) w =
     (case fst (addQuote d (trim t) (trim a) (store w)) of
        Inl e \<Rightarrow> (failure 500 ''Failed to add quote'' (Some (faultMessage e)),
                  w\<lparr>store := snd (addQuote d (trim t) (trim a) (store w))\<rparr>)
      | Inr q \<Rightarrow> (Json 201 \<lparr>success = True, error = None,
                             message = Some (Text ''Quote added successfully''),
                             data = Some (QuoteData q)\<rparr>,
                  inc_quotesAdded (w\<lparr>store := snd (addQuote d (trim t) (trim a) (store w))\<rparr>)))"
proof -
  from assms(1,2) have "t \<noteq> []" "a \<noteq> []" by auto
  with assms show ?thesis
    by (cases "addQuote d (trim t) (trim a) (store w)")
       (simp add: postQuote_def split: sum.splits)
qed

section \<open>Submission: a valid quote is added\<close>

text \<open>
  C6: for a valid submission (both fields strings that are non-empty after trimming, text
  of at most 1000 and author of at most 100 code units, accepted by the filter), on a store
  whose identifiers are in order, the submission succeeds and the quote returned has
  \<open>views = 0\<close>, the trimmed text and author, and an identifier that is positive and not
  the identifier of any live quote; the quote is appended to the store, which keeps its
  identifiers in order, and the quotes-added counter goes up by one.
\<close>

theorem valid_submission_adds_quote:
  assumes "storeOk (store w)"
    and "trim t \<noteq> []" "trim a \<noteq> []" "length t \<le> 1000" "length a \<le> 100"
    and "pf t a = Inr v" "isValid v"
  shows "fst (postQuote pf (specDb pick) (JStr t) (JStr a) w) =
           Json 201 \<lparr>success = True, error = None,
                      message = Some (Text ''Quote added successfully''),
                      data = Some (QuoteData
                        \<lparr>quote_id = nextId (store w), quote_text = trim t,
                         quote_author = trim a, quote_views = 0\<rparr>)\<rparr>
         \<and> 0 < nextId (store w)
         \<and> nextId (store w) \<notin> quote_id ` set (quotes (store w))
         \<and> quotes (store (snd (postQuote pf (specDb pick) (JStr t) (JStr a) w))) =
             quotes (store w) @ [\<lparr>quote_id = nextId (store w), quote_text = trim t,
                                  quote_author = trim a, quote_views = 0\<rparr>]
         \<and> storeOk (store (snd (postQuote pf (specDb pick) (JStr t) (JStr a) w)))
         \<and> quotesAddedCounter (metrics (snd (postQuote pf (specDb pick) (JStr t) (JStr a) w))) =
             quotesAddedCounter (metrics w) + 1"
proof -
  have add: "addQuote (specDb pick) (trim t) (trim a) (store w) =
      (Inr \<lparr>quote_id = nextId (store w), quote_text = trim t,
            quote_author = trim a, quote_views = 0\<rparr>,
       (store w)\<lparr>quotes := quotes (store w) @ [\<lparr>quote_id = nextId (store w), quote_text = trim t,
            quote_author = trim a, quote_views = 0\<rparr>], nextId := nextId (store w) + 1\<rparr>)"
    by (simp add: specDb_def spec_addQuote_def Let_def)
  have ok: "storeOk (snd (addQuote (specDb pick) (trim t) (trim a) (store w)))"
    using assms(1) by (rule storeOk_addQuote)
  from storeOk_fresh [OF assms(1)] ok show ?thesis
    by (simp add: postQuote_accepted [where pf = pf and t = t and a = a, OF assms(2-7)] add)
qed

theorem valid_submission_adds_quote_witness:
  "fst (postQuote sampleFilter (specDb firstPick) (JStr cleanText) (JStr cleanAuthor) emptyWorld) =
     Json 201 \<lparr>success = True, error = None, message = Some (Text ''Quote added successfully''),
                data = Some (QuoteData sampleQuote)\<rparr>
   \<and> quotes (store (snd (postQuote sampleFilter (specDb firstPick) (JStr cleanText)
       (JStr cleanAuthor) emptyWorld))) = [sampleQuote]"
proof -
  have 1: "storeOk (store emptyWorld)"
    by (simp add: emptyWorld_def storeOk_empty)
  have t: "trim cleanText = js ''Stay hungry, stay foolish.''"
    by (simp add: trim_def cleanText_def js_def isWhiteSpace_def)
  have a: "trim cleanAuthor = js ''Steve Jobs''"
    by (simp add: trim_def cleanAuthor_def js_def isWhiteSpace_def)
  have 2: "trim cleanText \<noteq> []" "trim cleanAuthor \<noteq> []"
    unfolding t a by (simp_all add: js_def)
  have 3: "length cleanText \<le> 1000" "length cleanAuthor \<le> 100"
    by (simp_all add: cleanText_def cleanAuthor_def js_def)
  have 4: "sampleFilter cleanText cleanAuthor = Inr \<lparr>isValid = True, validation_message = []\<rparr>"
    by (simp add: sampleFilter_def spec_validateQuote_def cleanText_def cleanAuthor_def js_def
          toLower_def)
  have 5: "isValid \<lparr>isValid = True, validation_message = []\<rparr>"
    by simp
  from valid_submission_adds_quote [where pf = sampleFilter and t = cleanText and a = cleanAuthor
      and pick = firstPick, OF 1 2 3 4 5]
  show ?thesis
    by (simp add: t a emptyWorld_def emptyStore_def sampleQuote_def)
qed

section \<open>Facts about the statistics handler and the middleware\<close>

lemma getStatsRoute_spec:
  "snd (getStatsRoute rc (specDb pick) w) = w"
  "getStatsRoute syncRead (specDb pick) w =
     (Json 200 \<lparr>success = True, error = None, message = None,
        data = Some (StatsData
          \<lparr>data_totalQuotes = length (quotes (store w)),
           data_totalRandomQuoteRequests = sum_list (map quote_views (quotes (store w))),
           data_quotesAdded = quotesAddedCounter (metrics w),
           data_profanityBlocked = profanityBlockedCounter (metrics w)\<rparr>)\<rparr>, w)"
  by (simp_all add: getStatsRoute_def specDb_def spec_getStats_def syncRead_def
        split: sum.splits)

lemma getStatsRoute_metrics: "metrics (snd (getStatsRoute rc d w)) = metrics w"
  by (cases "getStats d (store w)") (simp add: getStatsRoute_def split: sum.splits)

lemma onFinish_simps:
  "httpRequestsCounter (onFinish me l c e m) k =
     httpRequestsCounter m k + (if k = (me, l, decimal c) then 1 else 0)"
  "requestDurationHistogram (onFinish me l c e m) h =
     requestDurationHistogram m h @ (if h = (me, l) then [e] else [])"
  "quotesServedCounter (onFinish me l c e m) = quotesServedCounter m"
  "quotesAddedCounter (onFinish me l c e m) = quotesAddedCounter m"
  "profanityBlockedCounter (onFinish me l c e m) = profanityBlockedCounter m"
  by (simp_all add: onFinish_def counter_inc_def histogram_observe_def Let_def)

lemma metricsMiddleware_finished:
  "metricsMiddleware req True elapsed next w =
     (fst (next w),
      (snd (next w))\<lparr>metrics := onFinish (req_method req) (routeLabel req)
         (status (fst (next w))) elapsed (metrics (snd (next w)))\<rparr>)"
  by (cases "next w") (simp add: metricsMiddleware_def Let_def)

lemma metricsMiddleware_closed: "metricsMiddleware req False elapsed next w = next w"
  by (cases "next w") (simp add: metricsMiddleware_def Let_def)

lemma metricsRoute_unfold:
  "render (metrics v) = Inr txt \<Longrightarrow> metricsRoute render v = (Send 200 txt, v)"
  "render (metrics v) = Inl e \<Longrightarrow>
   metricsRoute render v = (failure 500 ''Failed to generate metrics'' (Some (faultMessage e)), v)"
  by (simp_all add: metricsRoute_def)

lemma getQuote_empty:
  "getQuote (specDb firstPick) emptyWorld =
     (failure 404 ''No quotes found in database'' None, emptyWorld)"
  by (simp add: getQuote_def specDb_def spec_getRandomQuote_def emptyWorld_def emptyStore_def)

lemma deleteQuoteRoute_empty:
  "deleteQuoteRoute (specDb firstPick) (js ''1'') emptyWorld = (notFound (Num 1), emptyWorld)"
  by (simp add: deleteQuoteRoute_def parseInt_one specDb_def spec_deleteQuote_def
        emptyWorld_def emptyStore_def)

lemma deleteQuoteRoute_no_quotes:
  assumes "quotes (store w) = []"
  shows "deleteQuoteRoute (specDb firstPick) (js ''2'') w = (notFound (Num 2), w)"
proof -
  have "parseInt (js ''2'') = Num 2"
    by (simp add: parseInt_def js_def isWhiteSpace_def isDigit_def decimalValue_def digitValue_def
        toNumber_exact)
  with assms show ?thesis
    by (simp add: deleteQuoteRoute_def specDb_def spec_deleteQuote_def)
qed

lemma status_simps:
  "status (failure c e m) = c"
  "status (notFound n) = 404"
  by (simp_all add: failure_def notFound_def)

lemma decimal_404: "decimal 404 = ''404''"
  by code_simp

lemma routeLabel_path:
  "req_route_path r = None \<Longrightarrow> req_path r \<noteq> [] \<Longrightarrow> routeLabel r = req_path r"
  by (simp add: routeLabel_def)

section \<open>Statistics\<close>

text \<open>
  C7: the statistics snapshot is read-only. On the modelled store the handler returns the
  process state as it was (store and every counter), \<open>getStats\<close> returns the store as it
  was and gives the same totals when called again, two snapshots in a row are the same
  reply, and with a client that reads counters directly the snapshot holds the live count,
  the sum of the views and the two counters. Whatever the store and the client do, the
  handler itself changes no counter; the request that carries the snapshot is counted by
  the middleware like any other.
\<close>

theorem stats_snapshot_read_only:
  "snd (getStatsRoute rc (specDb pick) w) = w
   \<and> getStats (specDb pick) (snd (getStats (specDb pick) s)) = getStats (specDb pick) s
   \<and> snd (getStats (specDb pick) s) = s
   \<and> fst (getStatsRoute rc (specDb pick) (snd (getStatsRoute rc (specDb pick) w))) =
       fst (getStatsRoute rc (specDb pick) w)
   \<and> fst (getStatsRoute syncRead (specDb pick) w) =
       Json 200 \<lparr>success = True, error = None, message = None,
         data = Some (StatsData
           \<lparr>data_totalQuotes = length (quotes (store w)),
            data_totalRandomQuoteRequests = sum_list (map quote_views (quotes (store w))),
            data_quotesAdded = quotesAddedCounter (metrics w),
            data_profanityBlocked = profanityBlockedCounter (metrics w)\<rparr>)\<rparr>
   \<and> metrics (snd (getStatsRoute rc d v)) = metrics v"
proof -
  have "getStats (specDb pick) s = (Inr \<lparr>totalQuotes = length (quotes s),
           totalViews = sum_list (map quote_views (quotes s))\<rparr>, s)" for s
    by (simp add: specDb_def spec_getStats_def)
  then show ?thesis
    by (simp add: getStatsRoute_spec getStatsRoute_metrics)
qed

theorem stats_snapshot_read_only_witness:
  "snd (getStatsRoute syncRead (specDb firstPick) oneQuoteWorld) = oneQuoteWorld
   \<and> fst (getStatsRoute syncRead (specDb firstPick) oneQuoteWorld) =
       Json 200 \<lparr>success = True, error = None, message = None,
         data = Some (StatsData
           \<lparr>data_totalQuotes = 1, data_totalRandomQuoteRequests = 0,
            data_quotesAdded = 0, data_profanityBlocked = 0\<rparr>)\<rparr>"
  using stats_snapshot_read_only [of syncRead firstPick oneQuoteWorld emptyStore
      "specDb firstPick" oneQuoteWorld]
  by (simp add: oneQuoteWorld_def sampleQuote_def emptyRegistry_def)

section \<open>Metrics: one observation per request\<close>

text \<open>
  C8, as claimed: every request that the middleware observes increments exactly one
  request-counter cell and records exactly one duration sample. The counting is behind the
  \<open>finish\<close> event of the response: a request whose connection is closed before its reply
  has been handed over has passed the middleware, which took its label and started its
  timer, but it changes no cell of the registry.
\<close>

theorem claimed_every_request_observed_counterexample:
  "metrics (snd (metricsMiddleware getQuoteRequest False 1500000 (getQuote (specDb firstPick))
      emptyWorld)) = metrics emptyWorld
   \<and> httpRequestsCounter (metrics (snd (metricsMiddleware getQuoteRequest False 1500000
       (getQuote (specDb firstPick)) emptyWorld))) (''GET'', ''/quote'', ''404'') = 0
   \<and> requestDurationHistogram (metrics (snd (metricsMiddleware getQuoteRequest False 1500000
       (getQuote (specDb firstPick)) emptyWorld))) (''GET'', ''/quote'') = []"
  unfolding metricsMiddleware_closed getQuote_empty
  by (simp add: emptyWorld_def emptyRegistry_def)

text \<open>
  C8, amended: for every observed request whose response finishes, whatever the rest of
  the stack answers (success or failure), the middleware passes the reply on and, relative
  to the state the handler left, increments exactly the request-counter cell of the
  request's method, route label and status, and adds exactly one sample, the elapsed time,
  to the histogram cell of the method and route label; every other cell, the three plain
  counters and the store are untouched. Exporting the metrics answers with the rendering
  of the registry as it is at that moment (or with the failure reply when the rendering
  fails) and leaves the whole process state as it was.
\<close>

theorem finished_request_observed_once:
  "fst (metricsMiddleware req True elapsed next w) = fst (next w)
   \<and> store (snd (metricsMiddleware req True elapsed next w)) = store (snd (next w))
   \<and> httpRequestsCounter (metrics (snd (metricsMiddleware req True elapsed next w))) k =
       httpRequestsCounter (metrics (snd (next w))) k +
         (if k = (req_method req, routeLabel req, decimal (status (fst (next w)))) then 1 else 0)
   \<and> requestDurationHistogram (metrics (snd (metricsMiddleware req True elapsed next w))) h =
       requestDurationHistogram (metrics (snd (next w))) h @
         (if h = (req_method req, routeLabel req) then [elapsed] else [])
   \<and> quotesServedCounter (metrics (snd (metricsMiddleware req True elapsed next w))) =
       quotesServedCounter (metrics (snd (next w)))
   \<and> quotesAddedCounter (metrics (snd (metricsMiddleware req True elapsed next w))) =
       quotesAddedCounter (metrics (snd (next w)))
   \<and> profanityBlockedCounter (metrics (snd (metricsMiddleware req True elapsed next w))) =
       profanityBlockedCounter (metrics (snd (next w)))
   \<and> (render (metrics v) = Inr txt \<longrightarrow> metricsRoute render v = (Send 200 txt, v))
   \<and> (render (metrics v) = Inl e \<longrightarrow>
        metricsRoute render v =
          (failure 500 ''Failed to generate metrics'' (Some (faultMessage e)), v))"
  by (simp add: metricsMiddleware_finished onFinish_simps metricsRoute_unfold)

theorem finished_request_observed_once_witness:
  "fst (metricsMiddleware getQuoteRequest True 1500000 (getQuote (specDb firstPick)) emptyWorld) =
     failure 404 ''No quotes found in database'' None
   \<and> httpRequestsCounter (metrics (snd (metricsMiddleware getQuoteRequest True 1500000
       (getQuote (specDb firstPick)) emptyWorld))) (''GET'', ''/quote'', ''404'') = 1
   \<and> httpRequestsCounter (metrics (snd (metricsMiddleware getQuoteRequest True 1500000
       (getQuote (specDb firstPick)) emptyWorld))) (''GET'', ''/quote'', ''200'') = 0
   \<and> requestDurationHistogram (metrics (snd (metricsMiddleware getQuoteRequest True 1500000
       (getQuote (specDb firstPick)) emptyWorld))) (''GET'', ''/quote'') = [1500000]
   \<and> metricsRoute sampleRender (snd (getQuote (specDb firstPick) oneQuoteWorld)) =
       (Send 200 ''quotes_served_total 1'', snd (getQuote (specDb firstPick) oneQuoteWorld))
   \<and> metricsRoute sampleRender emptyWorld = (Send 200 ''quotes_served_total 0'', emptyWorld)"
proof -
  have l: "routeLabel getQuoteRequest = ''/quote''" "req_method getQuoteRequest = ''GET''"
    by (simp_all add: routeLabel_def getQuoteRequest_def)
  have m: "httpRequestsCounter (metrics emptyWorld) k = 0"
    "requestDurationHistogram (metrics emptyWorld) h = []" for k h
    by (simp_all add: emptyWorld_def emptyRegistry_def)
  have d: "decimal 0 = ''0''" "decimal (Suc 0) = ''1''"
    by code_simp+
  have s: "quotesServedCounter (metrics (snd (getQuote (specDb firstPick) oneQuoteWorld))) = Suc 0"
    by (simp add: getQuote_def specDb_def spec_getRandomQuote_def oneQuoteWorld_def firstPick_def
          Let_def emptyRegistry_def)
  have r1: "sampleRender (metrics (snd (getQuote (specDb firstPick) oneQuoteWorld))) =
              Inr ''quotes_served_total 1''"
    by (simp add: sampleRender_def s d)
  have r0: "sampleRender (metrics emptyWorld) = Inr ''quotes_served_total 0''"
    by (simp add: sampleRender_def emptyWorld_def emptyRegistry_def d)
  note a = finished_request_observed_once [of getQuoteRequest 1500000 "getQuote (specDb firstPick)"
      emptyWorld "(''GET'', ''/quote'', ''404'')" "(''GET'', ''/quote'')" sampleRender
      "snd (getQuote (specDb firstPick) oneQuoteWorld)" "''quotes_served_total 1''"]
  note b = finished_request_observed_once [of getQuoteRequest 1500000 "getQuote (specDb firstPick)"
      emptyWorld "(''GET'', ''/quote'', ''200'')" "(''GET'', ''/quote'')" sampleRender
      emptyWorld "''quotes_served_total 0''"]
  from a r1 have 1: "fst (metricsMiddleware getQuoteRequest True 1500000
        (getQuote (specDb firstPick)) emptyWorld) = failure 404 ''No quotes found in database'' None"
    "httpRequestsCounter (metrics (snd (metricsMiddleware getQuoteRequest True 1500000
       (getQuote (specDb firstPick)) emptyWorld))) (''GET'', ''/quote'', ''404'') = 1"
    "requestDurationHistogram (metrics (snd (metricsMiddleware getQuoteRequest True 1500000
       (getQuote (specDb firstPick)) emptyWorld))) (''GET'', ''/quote'') = [1500000]"
    "metricsRoute sampleRender (snd (getQuote (specDb firstPick) oneQuoteWorld)) =
       (Send 200 ''quotes_served_total 1'', snd (getQuote (specDb firstPick) oneQuoteWorld))"
    by (simp_all add: getQuote_empty l m status_simps decimal_404)
  from b r0 have 2: "httpRequestsCounter (metrics (snd (metricsMiddleware getQuoteRequest True 1500000
       (getQuote (specDb firstPick)) emptyWorld))) (''GET'', ''/quote'', ''200'') = 0"
    "metricsRoute sampleRender emptyWorld = (Send 200 ''quotes_served_total 0'', emptyWorld)"
    by (simp_all add: getQuote_empty l m status_simps decimal_404)
  from 1 2 show ?thesis by simp
qed

section \<open>Metrics: the route label is the raw path\<close>

text \<open>
  C10: in the middleware, where no route has been matched yet, the label of a request is
  its raw path. So the counter increment and the duration sample of a request go to the
  cells labelled with its own path, and two requests with different paths have different
  request-counter cells and different histogram cells, whatever their methods and
  statuses: observing the first request adds one to its cell and one sample to its
  histogram cell, and leaves every cell of the second request's path as the handler left
  it.
\<close>

theorem distinct_paths_distinct_cells:
  assumes "req_route_path r1 = None" "req_route_path r2 = None"
    and "req_path r1 \<noteq> []" "req_path r2 \<noteq> []" "req_path r1 \<noteq> req_path r2"
  shows "routeLabel r1 = req_path r1 \<and> routeLabel r2 = req_path r2
     \<and> (req_method r1, routeLabel r1, s1) \<noteq> (req_method r2, routeLabel r2, s2)
     \<and> (req_method r1, routeLabel r1) \<noteq> (req_method r2, routeLabel r2)
     \<and> httpRequestsCounter (metrics (snd (metricsMiddleware r1 True e next w)))
           (req_method r1, req_path r1, decimal (status (fst (next w)))) =
         httpRequestsCounter (metrics (snd (next w)))
           (req_method r1, req_path r1, decimal (status (fst (next w)))) + 1
     \<and> requestDurationHistogram (metrics (snd (metricsMiddleware r1 True e next w)))
           (req_method r1, req_path r1) =
         requestDurationHistogram (metrics (snd (next w))) (req_method r1, req_path r1) @ [e]
     \<and> httpRequestsCounter (metrics (snd (metricsMiddleware r1 True e next w))) (m, req_path r2, s) =
         httpRequestsCounter (metrics (snd (next w))) (m, req_path r2, s)
     \<and> requestDurationHistogram (metrics (snd (metricsMiddleware r1 True e next w))) (m, req_path r2) =
         requestDurationHistogram (metrics (snd (next w))) (m, req_path r2)"
  using assms
  by (simp add: routeLabel_path metricsMiddleware_finished onFinish_simps)

theorem distinct_paths_distinct_cells_witness:
  "httpRequestsCounter (metrics (snd (metricsMiddleware (deleteRequest ''2'') True 2500000
        (deleteQuoteRoute (specDb firstPick) (js ''2''))
        (snd (metricsMiddleware (deleteRequest ''1'') True 1500000
          (deleteQuoteRoute (specDb firstPick) (js ''1'')) emptyWorld)))))
        (''DELETE'', ''/quote/1'', ''404'') = 1
   \<and> httpRequestsCounter (metrics (snd (metricsMiddleware (deleteRequest ''2'') True 2500000
        (deleteQuoteRoute (specDb firstPick) (js ''2''))
        (snd (metricsMiddleware (deleteRequest ''1'') True 1500000
          (deleteQuoteRoute (specDb firstPick) (js ''1'')) emptyWorld)))))
        (''DELETE'', ''/quote/2'', ''404'') = 1
   \<and> requestDurationHistogram (metrics (snd (metricsMiddleware (deleteRequest ''2'') True 2500000
        (deleteQuoteRoute (specDb firstPick) (js ''2''))
        (snd (metricsMiddleware (deleteRequest ''1'') True 1500000
          (deleteQuoteRoute (specDb firstPick) (js ''1'')) emptyWorld)))))
        (''DELETE'', ''/quote/1'') = [1500000]
   \<and> requestDurationHistogram (metrics (snd (metricsMiddleware (deleteRequest ''2'') True 2500000
        (deleteQuoteRoute (specDb firstPick) (js ''2''))
        (snd (metricsMiddleware (deleteRequest ''1'') True 1500000
          (deleteQuoteRoute (specDb firstPick) (js ''1'')) emptyWorld)))))
        (''DELETE'', ''/quote/2'') = [2500000]"
proof -
  let ?w1 = "snd (metricsMiddleware (deleteRequest ''1'') True 1500000
          (deleteQuoteRoute (specDb firstPick) (js ''1'')) emptyWorld)"
  let ?w2 = "snd (metricsMiddleware (deleteRequest ''2'') True 2500000
          (deleteQuoteRoute (specDb firstPick) (js ''2'')) ?w1)"
  have n: "req_route_path (deleteRequest ''1'') = None" "req_route_path (deleteRequest ''2'') = None"
    by (simp_all add: deleteRequest_def)
  have p: "req_path (deleteRequest ''1'') = ''/quote/1''" "req_path (deleteRequest ''2'') = ''/quote/2''"
    "req_method (deleteRequest ''1'') = ''DELETE''" "req_method (deleteRequest ''2'') = ''DELETE''"
    by (simp_all add: deleteRequest_def)
  have ne: "req_path (deleteRequest ''1'') \<noteq> []" "req_path (deleteRequest ''2'') \<noteq> []"
    "req_path (deleteRequest ''1'') \<noteq> req_path (deleteRequest ''2'')"
    "req_path (deleteRequest ''2'') \<noteq> req_path (deleteRequest ''1'')"
    by (simp_all add: p)
  have m: "httpRequestsCounter (metrics emptyWorld) k = 0"
    "requestDurationHistogram (metrics emptyWorld) h = []" for k h
    by (simp_all add: emptyWorld_def emptyRegistry_def)
  have q: "quotes (store ?w1) = []"
    unfolding metricsMiddleware_finished deleteQuoteRoute_empty
    by (simp add: emptyWorld_def emptyStore_def)
  note d1 = deleteQuoteRoute_empty
  note d2 = deleteQuoteRoute_no_quotes [OF q]
  note a = distinct_paths_distinct_cells [OF n(1) n(2) ne(1) ne(2) ne(3),
      of "''404''" "''404''" 1500000 "deleteQuoteRoute (specDb firstPick) (js ''1'')" emptyWorld
      "''DELETE''" "''404''"]
  note b = distinct_paths_distinct_cells [OF n(2) n(1) ne(2) ne(1) ne(4),
      of "''404''" "''404''" 2500000 "deleteQuoteRoute (specDb firstPick) (js ''2'')" ?w1
      "''DELETE''" "''404''"]
  from a have a1: "httpRequestsCounter (metrics ?w1) (''DELETE'', ''/quote/1'', ''404'') = 1"
    and a2: "requestDurationHistogram (metrics ?w1) (''DELETE'', ''/quote/1'') = [1500000]"
    and a3: "httpRequestsCounter (metrics ?w1) (''DELETE'', ''/quote/2'', ''404'') = 0"
    and a4: "requestDurationHistogram (metrics ?w1) (''DELETE'', ''/quote/2'') = []"
    by (simp_all add: p d1 m status_simps decimal_404)
  from b have b1: "httpRequestsCounter (metrics ?w2) (''DELETE'', ''/quote/2'', ''404'') =
        httpRequestsCounter (metrics ?w1) (''DELETE'', ''/quote/2'', ''404'') + 1"
    and b2: "requestDurationHistogram (metrics ?w2) (''DELETE'', ''/quote/2'') =
        requestDurationHistogram (metrics ?w1) (''DELETE'', ''/quote/2'') @ [2500000]"
    and b3: "httpRequestsCounter (metrics ?w2) (''DELETE'', ''/quote/1'', ''404'') =
        httpRequestsCounter (metrics ?w1) (''DELETE'', ''/quote/1'', ''404'')"
    and b4: "requestDurationHistogram (metrics ?w2) (''DELETE'', ''/quote/1'') =
        requestDurationHistogram (metrics ?w1) (''DELETE'', ''/quote/1'')"
    by (simp_all add: p d2 status_simps decimal_404)
  from a1 a2 a3 a4 b1 b2 b3 b4 show ?thesis by simp
qed

section \<open>Facts about parsing the id\<close>









section \<open>Delete: parsing of the id parameter\<close>



end
